theory Spec2Isabelle
  imports Complex_Main "HOL-Library.AList"
begin

section \<open>JavaScript values\<close>

text \<open>
  The handler inspects untyped values: the error argument, fields of the response, the
  options. A number is an IEEE double: not-a-number, the two infinities, or a finite
  value, kept here as the rational it denotes (every double is one; comparison of
  doubles is comparison of these rationals, and every comparison with not-a-number is
  false). Negative zero compares and converts to a boolean as zero does.
\<close>

datatype jsnum = NaN | PosInf | NegInf | Fin rat

text \<open>
  What a call with no arguments does: return a value, throw a value, or (the built-in
  \<^verbatim>\<open>toString\<close> of strings, numbers and booleans) return the string conversion
  of the receiver.
\<close>

datatype 'a outcome = Return 'a | Throw 'a | String_of_this

text \<open>
  \<open>JObj own rest\<close> is a non-null value whose \<^verbatim>\<open>typeof\<close> is
  \<^verbatim>\<open>'object'\<close>: \<open>own\<close> holds its own enumerable string-keyed properties in
  the order \<^verbatim>\<open>Object.keys\<close> lists them, \<open>rest\<close> the properties a read also
  finds (non-enumerable or inherited ones). \<open>JFun call props\<close> is a function with
  the properties a read finds on it. Property reads are data reads: accessors, proxies,
  symbols and big integers are outside this model.
\<close>

datatype jsval =
    JUndefined
  | JNull
  | JBool bool
  | JNum jsnum
  | JStr string
  | JObj "(string \<times> jsval) list" "(string \<times> jsval) list"
  | JFun "jsval outcome" "(string \<times> jsval) list"

datatype exn = TypeError | Thrown jsval

fun typeof_js :: "jsval \<Rightarrow> string" where
  "typeof_js JUndefined = ''undefined''"
| "typeof_js JNull = ''object''"
| "typeof_js (JBool b) = ''boolean''"
| "typeof_js (JNum n) = ''number''"
| "typeof_js (JStr s) = ''string''"
| "typeof_js (JObj own rest) = ''object''"
| "typeof_js (JFun c ps) = ''function''"

text \<open>Conversion to a boolean, as \<^verbatim>\<open>if (v)\<close>, \<^verbatim>\<open>!v\<close> and \<^verbatim>\<open>v || w\<close> do it.\<close>

fun truthy :: "jsval \<Rightarrow> bool" where
  "truthy JUndefined = False"
| "truthy JNull = False"
| "truthy (JBool b) = b"
| "truthy (JNum NaN) = False"
| "truthy (JNum (Fin r)) = (r \<noteq> 0)"
| "truthy (JNum PosInf) = True"
| "truthy (JNum NegInf) = True"
| "truthy (JStr s) = (s \<noteq> [])"
| "truthy (JObj own rest) = True"
| "truthy (JFun c ps) = True"

fun nullish :: "jsval \<Rightarrow> bool" where
  "nullish JUndefined = True"
| "nullish JNull = True"
| "nullish v = False"

definition lookup :: "(string \<times> jsval) list \<Rightarrow> string \<Rightarrow> jsval" where
  "lookup ps k = (case map_of ps k of Some v \<Rightarrow> v | None \<Rightarrow> JUndefined)"

text \<open>
  \<open>js_get v k\<close> is the read \<^verbatim>\<open>v[k]\<close> on a value that is neither
  \<^verbatim>\<open>undefined\<close> nor \<^verbatim>\<open>null\<close> (there the read throws a TypeError, which
  the functions below return before they read). On a primitive the read goes to the
  standard prototype, which among the names this program reads has only
  \<^verbatim>\<open>toString\<close>.
\<close>

fun js_get :: "jsval \<Rightarrow> string \<Rightarrow> jsval" where
  "js_get (JObj own rest) k =
     (case map_of own k of Some v \<Rightarrow> v | None \<Rightarrow> lookup rest k)"
| "js_get (JFun c ps) k = lookup ps k"
| "js_get (JStr s) k = (if k = ''toString'' then JFun String_of_this [] else JUndefined)"
| "js_get (JNum n) k = (if k = ''toString'' then JFun String_of_this [] else JUndefined)"
| "js_get (JBool b) k = (if k = ''toString'' then JFun String_of_this [] else JUndefined)"
| "js_get JUndefined k = JUndefined"
| "js_get JNull k = JUndefined"

text \<open>
  The comparisons \<^verbatim>\<open>v >= c\<close>, \<^verbatim>\<open>v < c\<close> and \<^verbatim>\<open>v > c\<close> with a finite
  constant. The source evaluates them on numbers only (each follows a
  \<^verbatim>\<open>typeof\<close> test in the same condition), so the other values are not
  coerced here.
\<close>

fun js_ge :: "jsval \<Rightarrow> rat \<Rightarrow> bool" where
  "js_ge (JNum (Fin r)) c = (c \<le> r)"
| "js_ge (JNum PosInf) c = True"
| "js_ge v c = False"

fun js_lt :: "jsval \<Rightarrow> rat \<Rightarrow> bool" where
  "js_lt (JNum (Fin r)) c = (r < c)"
| "js_lt (JNum NegInf) c = True"
| "js_lt v c = False"

fun js_gt :: "jsval \<Rightarrow> rat \<Rightarrow> bool" where
  "js_gt (JNum (Fin r)) c = (c < r)"
| "js_gt (JNum PosInf) c = True"
| "js_gt v c = False"

text \<open>Ordinary objects inherit \<^verbatim>\<open>Object.prototype.toString\<close>.\<close>

definition Object_prototype :: "(string \<times> jsval) list" where
  "Object_prototype = [(''toString'', JFun (Return (JStr ''[object Object]'')) [])]"

section \<open>Status code of an error\<close>

text \<open>\<^verbatim>\<open>getErrorStatusCode(err)\<close>, index.js lines 121 to 133.\<close>

definition getErrorStatusCode :: "jsval \<Rightarrow> exn + jsval" where
  "getErrorStatusCode err =
     (if nullish err then Inl TypeError
      else if typeof_js (js_get err ''status'') = ''number''
              \<and> js_ge (js_get err ''status'') 400 \<and> js_lt (js_get err ''status'') 600
        then Inr (js_get err ''status'')
      else if typeof_js (js_get err ''statusCode'') = ''number''
              \<and> js_ge (js_get err ''statusCode'') 400 \<and> js_lt (js_get err ''statusCode'') 600
        then Inr (js_get err ''statusCode'')
      else Inr JUndefined)"

text \<open>
  The acceptance rule in the specification's words: the attribute is numeric and its
  value lies in the half-open interval from 400 to 600.
\<close>

fun valid_status :: "jsval \<Rightarrow> bool" where
  "valid_status (JNum (Fin r)) = (400 \<le> r \<and> r < 600)"
| "valid_status v = False"


section \<open>Collaborators\<close>

text \<open>
  The packages the module requires are parameters of the model: \<^verbatim>\<open>escape-html\<close>,
  \<^verbatim>\<open>encodeurl\<close>, the table \<^verbatim>\<open>statuses.message\<close> (keyed by integer code),
  \<^verbatim>\<open>Buffer.byteLength\<close>, and the engine's conversion of a value that is not a
  string to a string (\<^verbatim>\<open>String(v)\<close>). Each is taken to return.
\<close>

record deps =
  escapeHtml :: "jsval \<Rightarrow> string"
  encodeUrl :: "jsval \<Rightarrow> string"
  statuses_message :: "int \<Rightarrow> string option"
  byteLength :: "string \<Rightarrow> nat"
  ToString :: "jsval \<Rightarrow> string"

text \<open>
  What the handler observes of the request: \<^verbatim>\<open>req.method\<close>, what
  \<^verbatim>\<open>parseUrl.original(req)\<close> does (it returns a parsed URL or
  \<^verbatim>\<open>undefined\<close>, or throws), and whether \<^verbatim>\<open>isFinished(req)\<close> is truthy.
  Of the response it reads \<^verbatim>\<open>headersSent\<close>, \<^verbatim>\<open>_header\<close> and
  \<^verbatim>\<open>statusCode\<close>.
\<close>

record request =
  req_method :: string
  parseUrl_original :: "exn + jsval"
  isFinished :: bool

record response =
  res_headersSent :: jsval
  res_header :: jsval
  res_statusCode :: jsval

record options =
  opt_env :: jsval
  opt_onerror :: jsval
  opt_app :: jsval

text \<open>
  Everything the handler does to the outside is a call on a collaborator or an assignment
  to the response; a run is the list of these in order. \<open>OnFinished w\<close> registers the
  listener that performs \<open>w\<close>.
\<close>

datatype action =
    Debug "jsval list"
  | Res_end "string option"
  | Res_set_statusCode jsval
  | Res_set_statusMessage jsval
  | Res_setHeader string jsval
  | App_emit string jsval
  | Defer_onerror jsval
  | Unpipe
  | OnFinished "action list"
  | Req_resume

definition bind_exn :: "exn + 'a \<Rightarrow> ('a \<Rightarrow> exn + 'b) \<Rightarrow> exn + 'b" where
  "bind_exn m f = (case m of Inl e \<Rightarrow> Inl e | Inr x \<Rightarrow> f x)"

text \<open>\<^verbatim>\<open>a || b\<close>.\<close>

definition js_or :: "jsval \<Rightarrow> jsval \<Rightarrow> jsval" where
  "js_or a b = (if truthy a then a else b)"

text \<open>The call \<^verbatim>\<open>this.f()\<close> of a value \<open>f\<close> read from \<open>this\<close>.\<close>

fun js_call :: "deps \<Rightarrow> jsval \<Rightarrow> jsval \<Rightarrow> exn + jsval" where
  "js_call deps this (JFun (Return v) ps) = Inr v"
| "js_call deps this (JFun (Throw e) ps) = Inl (Thrown e)"
| "js_call deps this (JFun String_of_this ps) =
     (case this of JStr s \<Rightarrow> Inr (JStr s) | _ \<Rightarrow> Inr (JStr (ToString deps this)))"
| "js_call deps this f = Inl TypeError"

fun Object_keys :: "jsval \<Rightarrow> string list" where
  "Object_keys (JObj own rest) = map fst own"
| "Object_keys v = []"

section \<open>The document\<close>

text \<open>
  \<^verbatim>\<open>s.replace(/p/g, r)\<close> for a pattern that is a literal, non-empty string and a
  replacement without \<^verbatim>\<open>$\<close>: the matches are found from the left and do not
  overlap.
\<close>

function replace_all :: "string \<Rightarrow> string \<Rightarrow> string \<Rightarrow> string" where
  "replace_all pat rep s =
     (if s = [] \<or> pat = [] then s
      else if take (length pat) s = pat then rep @ replace_all pat rep (drop (length pat) s)
      else hd s # replace_all pat rep (tl s))"
  by pat_completeness auto
termination
  by (relation "measure (\<lambda>(pat, rep, s). length s)") (auto simp: neq_Nil_conv)

declare replace_all.simps [simp del]

definition NEWLINE_REGEXP :: string where
  "NEWLINE_REGEXP = [CHR 0x0A]"

definition DOUBLE_SPACE_REGEXP :: string where
  "DOUBLE_SPACE_REGEXP = [CHR 0x20, CHR 0x20]"

text \<open>
  \<^verbatim>\<open>createHtmlDocument(message)\<close>, index.js lines 49 to 64. The escape converts
  its argument to a string before it escapes; \<open>escapeHtml\<close> stands for the escape of
  a message that has a string conversion, as every string has. For a message without
  one (an object with neither a usable \<^verbatim>\<open>toString\<close> nor
  \<^verbatim>\<open>valueOf\<close>) the source throws here, which this definition does not show:
  what is proved below of the handler returning is stated for string messages.
\<close>

definition createHtmlDocument :: "deps \<Rightarrow> jsval \<Rightarrow> string" where
  "createHtmlDocument deps message =
     (let body = replace_all DOUBLE_SPACE_REGEXP '' &nbsp;''
                   (replace_all NEWLINE_REGEXP ''<br>'' (escapeHtml deps message))
      in ''<!DOCTYPE html>'' @ [CHR 0x0A] @
         ''<html lang='' @ [CHR 0x22] @ ''en'' @ [CHR 0x22] @ ''>'' @ [CHR 0x0A] @
         ''<head>'' @ [CHR 0x0A] @
         ''<meta charset='' @ [CHR 0x22] @ ''utf-8'' @ [CHR 0x22] @ ''>'' @ [CHR 0x0A] @
         ''<title>Error</title>'' @ [CHR 0x0A] @
         ''</head>'' @ [CHR 0x0A] @
         ''<body>'' @ [CHR 0x0A] @
         ''<pre>'' @ body @ ''</pre>'' @ [CHR 0x0A] @
         ''</body>'' @ [CHR 0x0A] @
         ''</html>'' @ [CHR 0x0A])"

section \<open>Headers and message of an error\<close>

text \<open>
  \<^verbatim>\<open>getErrorHeaders(err)\<close>, index.js lines 73 to 87. The loop assigns each key of
  \<^verbatim>\<open>err.headers\<close> to a fresh object without prototype: an assignment replaces the
  value of a key the object has and appends a new key otherwise.
\<close>

fun copy_headers :: "jsval \<Rightarrow> string list \<Rightarrow> (string \<times> jsval) list \<Rightarrow> (string \<times> jsval) list" where
  "copy_headers src [] headers = headers"
| "copy_headers src (key # keys) headers =
     copy_headers src keys (AList.update key (js_get src key) headers)"

definition getErrorHeaders :: "jsval \<Rightarrow> exn + jsval" where
  "getErrorHeaders err =
     (if nullish err then Inl TypeError
      else if \<not> truthy (js_get err ''headers'') \<or> typeof_js (js_get err ''headers'') \<noteq> ''object''
        then Inr JUndefined
      else Inr (JObj (copy_headers (js_get err ''headers'')
                        (Object_keys (js_get err ''headers'')) []) []))"

text \<open>
  \<^verbatim>\<open>statuses.message[status]\<close>: the key of a number is its string conversion, so
  only an integer value finds an entry of the table.
\<close>

definition statuses_message_at :: "deps \<Rightarrow> jsval \<Rightarrow> jsval" where
  "statuses_message_at deps status =
     (case status of
        JNum (Fin r) \<Rightarrow>
          (if of_int \<lfloor>r\<rfloor> = r
           then (case statuses_message deps \<lfloor>r\<rfloor> of Some p \<Rightarrow> JStr p | None \<Rightarrow> JUndefined)
           else JUndefined)
      | _ \<Rightarrow> JUndefined)"

text \<open>\<^verbatim>\<open>getErrorMessage(err, status, env)\<close>, index.js lines 98 to 112.\<close>

definition getErrorMessage :: "deps \<Rightarrow> jsval \<Rightarrow> jsval \<Rightarrow> jsval \<Rightarrow> exn + jsval" where
  "getErrorMessage deps err status env =
     bind_exn
       (if env \<noteq> JStr ''production'' then
          (if nullish err then Inl TypeError
           else if \<not> truthy (js_get err ''stack'')
                   \<and> typeof_js (js_get err ''toString'') = ''function''
             then js_call deps err (js_get err ''toString'')
           else Inr (js_get err ''stack''))
        else Inr JUndefined)
       (\<lambda>msg. Inr (js_or msg (js_or (statuses_message_at deps status)
                                    (JStr (ToString deps status)))))"

section \<open>Request and response\<close>

text \<open>\<^verbatim>\<open>getResourceName(req)\<close>, index.js lines 145 to 151.\<close>

definition getResourceName :: "request \<Rightarrow> jsval" where
  "getResourceName req =
     (case parseUrl_original req of
        Inl e \<Rightarrow> JStr ''resource''
      | Inr url \<Rightarrow> if nullish url then JStr ''resource'' else js_get url ''pathname'')"

text \<open>\<^verbatim>\<open>getResponseStatusCode(res)\<close>, index.js lines 160 to 169.\<close>

definition getResponseStatusCode :: "response \<Rightarrow> jsval" where
  "getResponseStatusCode res =
     (let status = res_statusCode res
      in if typeof_js status \<noteq> ''number'' \<or> js_lt status 400 \<or> js_gt status 599
         then JNum (Fin 500) else status)"

text \<open>\<^verbatim>\<open>headersSent(res)\<close>, index.js lines 178 to 182.\<close>

definition headersSent :: "response \<Rightarrow> bool" where
  "headersSent res =
     (if typeof_js (res_headersSent res) \<noteq> ''boolean'' then truthy (res_header res)
      else truthy (res_headersSent res))"

text \<open>\<^verbatim>\<open>setHeaders(res, headers)\<close>, index.js lines 242 to 252.\<close>

definition setHeaders :: "jsval \<Rightarrow> action list" where
  "setHeaders headers =
     (if \<not> truthy headers then []
      else map (\<lambda>key. Res_setHeader key (js_get headers key)) (Object_keys headers))"

text \<open>
  \<^verbatim>\<open>sendResponse(req, res, status, headers, message)\<close>, index.js lines 194 to 233;
  \<open>write_response\<close> is its inner function \<^verbatim>\<open>write\<close>.
\<close>

definition write_response :: "deps \<Rightarrow> request \<Rightarrow> jsval \<Rightarrow> jsval \<Rightarrow> jsval \<Rightarrow> action list" where
  "write_response deps req status headers message =
     (let body = createHtmlDocument deps message
      in [Res_set_statusCode status,
          Res_set_statusMessage
            (js_or (statuses_message_at deps status) (JStr (ToString deps status)))]
         @ setHeaders headers
         @ [Res_setHeader ''Content-Security-Policy''
              (JStr (''default-src '' @ [CHR 0x27] @ ''none'' @ [CHR 0x27])),
            Res_setHeader ''X-Content-Type-Options'' (JStr ''nosniff''),
            Res_setHeader ''Content-Type'' (JStr ''text/html; charset=utf-8''),
            Res_setHeader ''Content-Length'' (JNum (Fin (of_nat (byteLength deps body))))]
         @ (if req_method req = ''HEAD'' then [Res_end None] else [Res_end (Some body)]))"

definition sendResponse :: "deps \<Rightarrow> request \<Rightarrow> jsval \<Rightarrow> jsval \<Rightarrow> jsval \<Rightarrow> action list" where
  "sendResponse deps req status headers message =
     (if isFinished req then write_response deps req status headers message
      else [Unpipe, OnFinished (write_response deps req status headers message), Req_resume])"

section \<open>The handler\<close>

text \<open>
  The module's export, index.js lines 258 to 316. \<open>get_env\<close> is the environment
  chosen when the handler is made (\<open>node_env\<close> is \<^verbatim>\<open>process.env.NODE_ENV\<close>);
  \<open>derive\<close> is the block that settles status, headers and message; \<open>finish\<close> is the
  function returned.
\<close>

definition get_env :: "options \<Rightarrow> jsval \<Rightarrow> jsval" where
  "get_env opts node_env = js_or (opt_env opts) (js_or node_env (JStr ''development''))"

definition derive :: "deps \<Rightarrow> jsval \<Rightarrow> request \<Rightarrow> response \<Rightarrow> jsval \<Rightarrow> exn + (jsval \<times> jsval \<times> jsval)" where
  "derive deps env req res err =
     (if truthy err then
        bind_exn (getErrorStatusCode err) (\<lambda>status0.
        bind_exn (if status0 = JUndefined then Inr (getResponseStatusCode res, JUndefined)
                  else bind_exn (getErrorHeaders err) (\<lambda>headers. Inr (status0, headers)))
          (\<lambda>(status, headers).
        bind_exn (getErrorMessage deps err status env) (\<lambda>msg.
        Inr (status, headers, msg))))
      else Inr (JNum (Fin 404), JUndefined,
                JStr (''Cannot '' @ req_method req @ '' '' @ encodeUrl deps (getResourceName req))))"

definition finish :: "deps \<Rightarrow> jsval \<Rightarrow> options \<Rightarrow> request \<Rightarrow> response \<Rightarrow> jsval \<Rightarrow> exn + action list" where
  "finish deps env opts req res err =
     (if headersSent res
      then Inr [Debug [JStr ''cannot %d after headers sent'', JUndefined], Res_end (Some [])]
      else
        bind_exn (derive deps env req res err) (\<lambda>(status, headers, msg).
        Inr ([Debug [JStr ''error dispatching %s %s'', JStr (req_method req),
                     JStr (encodeUrl deps (getResourceName req))]]
             @ (if truthy (opt_app opts) \<and> typeof_js (js_get (opt_app opts) ''emit'') = ''function''
                then [App_emit ''errorDispatch''
                        (JObj [(''method'', JStr (req_method req)),
                               (''url'', JStr (encodeUrl deps (getResourceName req)))]
                           Object_prototype)]
                else [])
             @ [Debug [JStr ''default %s'', status]]
             @ (if truthy err \<and> truthy (opt_onerror opts) then [Defer_onerror err] else [])
             @ sendResponse deps req status headers msg)))"

definition finalhandler :: "deps \<Rightarrow> jsval \<Rightarrow> request \<Rightarrow> response \<Rightarrow> options \<Rightarrow> jsval \<Rightarrow> exn + action list" where
  "finalhandler deps node_env req res options err =
     finish deps (get_env options node_env) options req res err"

section \<open>Reading a run\<close>

text \<open>
  \<open>all_actions\<close> lists what a run does once its listener has fired: the actions in
  order, a listener replaced by the actions it performs.
\<close>

fun flatten :: "action \<Rightarrow> action list" where
  "flatten (OnFinished w) = concat (map flatten w)"
| "flatten a = [a]"

definition all_actions :: "action list \<Rightarrow> action list" where
  "all_actions acts = concat (map flatten acts)"

fun status_set :: "action \<Rightarrow> jsval option" where
  "status_set (Res_set_statusCode v) = Some v"
| "status_set a = None"

fun header_set :: "action \<Rightarrow> (string \<times> jsval) option" where
  "header_set (Res_setHeader k v) = Some (k, v)"
| "header_set a = None"

fun emitted :: "action \<Rightarrow> (string \<times> jsval) option" where
  "emitted (App_emit name payload) = Some (name, payload)"
| "emitted a = None"

fun ended :: "action \<Rightarrow> string option option" where
  "ended (Res_end body) = Some body"
| "ended a = None"

fun touches_response :: "action \<Rightarrow> bool" where
  "touches_response (Res_end body) = True"
| "touches_response (Res_set_statusCode v) = True"
| "touches_response (Res_set_statusMessage v) = True"
| "touches_response (Res_setHeader k v) = True"
| "touches_response a = False"

text \<open>The status codes a run assigns, the headers it sets, the events it emits.\<close>

definition statuses_written :: "action list \<Rightarrow> jsval list" where
  "statuses_written acts = List.map_filter status_set (all_actions acts)"

definition header_calls :: "action list \<Rightarrow> (string \<times> jsval) list" where
  "header_calls acts = List.map_filter header_set (all_actions acts)"


definition ends :: "action list \<Rightarrow> string option list" where
  "ends acts = List.map_filter ended acts"

section \<open>The specification's wording\<close>

text \<open>A genuine object: what \<^verbatim>\<open>typeof\<close> calls an object, \<^verbatim>\<open>null\<close> apart.\<close>

fun is_object :: "jsval \<Rightarrow> bool" where
  "is_object (JObj own rest) = True"
| "is_object v = False"

text \<open>
  The status and the headers of an error response as the specification derives them:
  the error's first valid status-like attribute, else the status of the response; the
  error's headers when the status came from the error and they are a genuine object.
\<close>

definition error_status :: "response \<Rightarrow> jsval \<Rightarrow> jsval" where
  "error_status res err =
     (if valid_status (js_get err ''status'') then js_get err ''status''
      else if valid_status (js_get err ''statusCode'') then js_get err ''statusCode''
      else getResponseStatusCode res)"

definition error_headers :: "jsval \<Rightarrow> jsval" where
  "error_headers err =
     (if (valid_status (js_get err ''status'') \<or> valid_status (js_get err ''statusCode''))
         \<and> is_object (js_get err ''headers'')
      then JObj (copy_headers (js_get err ''headers'') (Object_keys (js_get err ''headers'')) []) []
      else JUndefined)"

text \<open>
  The two conversions of the message as the specification words them: every newline
  becomes \<^verbatim>\<open><br>\<close>; reading from the left, two spaces in a row become a space and
  the non-breaking-space entity.
\<close>

definition newline_to_br :: "string \<Rightarrow> string" where
  "newline_to_br s = concat (map (\<lambda>c. if c = CHR 0x0A then ''<br>'' else [c]) s)"

fun pair_spaces :: "string \<Rightarrow> string" where
  "pair_spaces (a # b # cs) =
     (if a = CHR 0x20 \<and> b = CHR 0x20 then '' &nbsp;'' @ pair_spaces cs
      else a # pair_spaces (b # cs))"
| "pair_spaces cs = cs"

text \<open>The lines of a text, each ended by a newline.\<close>

definition unlines :: "string list \<Rightarrow> string" where
  "unlines ls = concat (map (\<lambda>l. l @ [CHR 0x0A]) ls)"

text \<open>A number in the closed interval from 400 to 599.\<close>

fun in_closed_range :: "jsval \<Rightarrow> bool" where
  "in_closed_range (JNum (Fin r)) = (400 \<le> r \<and> r \<le> 599)"
| "in_closed_range v = False"

text \<open>
  The canonical reason phrase of a status, or the stringified status number when no
  phrase is registered.
\<close>

definition reason_phrase :: "deps \<Rightarrow> jsval \<Rightarrow> string" where
  "reason_phrase deps status =
     (case status of
        JNum (Fin r) \<Rightarrow>
          (if of_int \<lfloor>r\<rfloor> = r
           then (case statuses_message deps \<lfloor>r\<rfloor> of Some p \<Rightarrow> p | None \<Rightarrow> ToString deps status)
           else ToString deps status)
      | _ \<Rightarrow> ToString deps status)"

text \<open>
  The error argument has no usable string conversion: its \<^verbatim>\<open>toString\<close> is not a
  function, or the call returns a value that converts to false.
\<close>

definition no_string_conversion :: "deps \<Rightarrow> jsval \<Rightarrow> bool" where
  "no_string_conversion deps err =
     (typeof_js (js_get err ''toString'') \<noteq> ''function''
      \<or> (case js_call deps err (js_get err ''toString'') of
            Inr v \<Rightarrow> \<not> truthy v | Inl e \<Rightarrow> False))"

text \<open>The call of \<^verbatim>\<open>toString\<close> throws.\<close>

definition toString_throws :: "deps \<Rightarrow> jsval \<Rightarrow> bool" where
  "toString_throws deps err =
     (case js_call deps err (js_get err ''toString'') of Inl e \<Rightarrow> True | Inr v \<Rightarrow> False)"

section \<open>Collaborators for the examples\<close>

text \<open>
  One concrete set of collaborators, on which the model is evaluated: the escaping of
  \<^verbatim>\<open>escape-html\<close>, a reason-phrase table with the entries the tests name, byte length
  of ASCII text, and the string conversion of primitives (a finite number by its decimal
  expansion, which is what JavaScript prints for the integers and short fractions used
  here). The example paths hold characters that \<^verbatim>\<open>encodeurl\<close> leaves alone.
\<close>

fun decimal :: "nat \<Rightarrow> string" where
  "decimal n =
     (if n < 10 then [char_of (48 + n)] else decimal (n div 10) @ [char_of (48 + n mod 10)])"

declare decimal.simps [simp del]

fun fraction_digits :: "nat \<Rightarrow> rat \<Rightarrow> string" where
  "fraction_digits 0 r = []"
| "fraction_digits (Suc n) r =
     (if r = 0 then []
      else char_of (48 + nat \<lfloor>r * 10\<rfloor>) # fraction_digits n (r * 10 - of_int \<lfloor>r * 10\<rfloor>))"

fun example_ToString :: "jsval \<Rightarrow> string" where
  "example_ToString JUndefined = ''undefined''"
| "example_ToString JNull = ''null''"
| "example_ToString (JBool b) = (if b then ''true'' else ''false'')"
| "example_ToString (JStr s) = s"
| "example_ToString (JNum NaN) = ''NaN''"
| "example_ToString (JNum PosInf) = ''Infinity''"
| "example_ToString (JNum NegInf) = ''-Infinity''"
| "example_ToString (JNum (Fin r)) =
     (if r < 0 then ''-'' else []) @ decimal (nat \<lfloor>\<bar>r\<bar>\<rfloor>)
     @ (if \<bar>r\<bar> = of_int \<lfloor>\<bar>r\<bar>\<rfloor> then []
        else ''.'' @ fraction_digits 20 (\<bar>r\<bar> - of_int \<lfloor>\<bar>r\<bar>\<rfloor>))"
| "example_ToString (JObj own rest) = ''[object Object]''"
| "example_ToString (JFun c ps) = ''function () { [native code] }''"

fun escape_char :: "char \<Rightarrow> string" where
  "escape_char c =
     (if c = CHR 0x22 then ''&quot;''
      else if c = CHR ''&'' then ''&amp;''
      else if c = CHR 0x27 then ''&#39;''
      else if c = CHR ''<'' then ''&lt;''
      else if c = CHR ''>'' then ''&gt;''
      else [c])"

definition example_statuses :: "int \<Rightarrow> string option" where
  "example_statuses code =
     (if code = 400 then Some ''Bad Request''
      else if code = 404 then Some ''Not Found''
      else if code = 500 then Some ''Internal Server Error''
      else if code = 501 then Some ''Not Implemented''
      else if code = 509 then Some ''Bandwidth Limit Exceeded''
      else None)"

definition example_deps :: deps where
  "example_deps =
     \<lparr> escapeHtml = (\<lambda>v. concat (map escape_char (example_ToString v))),
       encodeUrl = example_ToString,
       statuses_message = example_statuses,
       byteLength = length,
       ToString = example_ToString \<rparr>"

text \<open>
  A request \<^verbatim>\<open>GET /foo\<close> whose body has been read, one whose body is still
  arriving, a response that has sent nothing, and the empty options.
\<close>

definition example_req :: request where
  "example_req =
     \<lparr> req_method = ''GET'',
       parseUrl_original = Inr (JObj [(''pathname'', JStr ''/foo'')] Object_prototype),
       isFinished = True \<rparr>"

definition example_res :: response where
  "example_res = \<lparr> res_headersSent = JBool False, res_header = JNull, res_statusCode = JNum (Fin 200) \<rparr>"

definition example_opts :: options where
  "example_opts = \<lparr> opt_env = JUndefined, opt_onerror = JUndefined, opt_app = JUndefined \<rparr>"

text \<open>The actions of a run that returned; none when it threw.\<close>

definition run_of :: "exn + action list \<Rightarrow> action list" where
  "run_of r = (case r of Inr acts \<Rightarrow> acts | Inl e \<Rightarrow> [])"

text \<open>
  Errors: one with a status and headers, as \<^verbatim>\<open>createError('too many requests',
  {status: 429, headers: {'Retry-After': '5'}})\<close> makes it, and an object whose
  \<^verbatim>\<open>toString\<close> throws. A response that has sent its headers, options with an
  application that can emit, and a request whose body has not been read.
\<close>

definition too_many :: jsval where
  "too_many =
     JObj [(''status'', JNum (Fin 429)),
           (''headers'', JObj [(''Retry-After'', JStr ''5'')] Object_prototype)]
       ((''stack'', JStr ''Error: too many requests'') # Object_prototype)"

definition throwing_error :: jsval where
  "throwing_error = JObj [] [(''toString'', JFun (Throw (JStr ''boom'')) [])]"

definition sent_res :: response where
  "sent_res = \<lparr> res_headersSent = JBool True, res_header = JStr ''HTTP/1.1 301'',
                 res_statusCode = JNum (Fin 301) \<rparr>"


definition unread_req :: request where
  "unread_req =
     \<lparr> req_method = ''POST'',
       parseUrl_original = Inr (JObj [(''pathname'', JStr ''/foo'')] Object_prototype),
       isFinished = False \<rparr>"


text \<open>A stack trace with a newline and runs of four, two and three spaces.\<close>

definition boom_stack :: string where
  "boom_stack = ''Error: boom!'' @ [CHR 0x0A] @ ''    at <f>  x   y''"


text \<open>
  An error with status 501 and a stack, as \<^verbatim>\<open>createError('boom!', {status: 501})\<close>
  makes it, and the options \<^verbatim>\<open>{env: 'production'}\<close>.
\<close>

definition boom_error :: jsval where
  "boom_error =
     JObj [(''status'', JNum (Fin 501))]
       ((''stack'', JStr boom_stack) # (''message'', JStr ''boom!'') # Object_prototype)"

definition prod_opts :: options where
  "prod_opts = \<lparr> opt_env = JStr ''production'', opt_onerror = JUndefined, opt_app = JUndefined \<rparr>"


text \<open>
  A plain \<^verbatim>\<open>new Error('failed')\<close>, a response whose status code was set to
  not-a-number, and an error whose status is 599.5.
\<close>

definition plain_error :: jsval where
  "plain_error = JObj [] ((''stack'', JStr ''Error: failed'') # (''message'', JStr ''failed'') # Object_prototype)"

definition nan_res :: response where
  "nan_res = \<lparr> res_headersSent = JBool False, res_header = JNull, res_statusCode = JNum NaN \<rparr>"

definition half_error :: jsval where
  "half_error =
     JObj [(''status'', JNum (Fin (1199 / 2)))]
       ((''stack'', JStr ''Error: failed'') # (''message'', JStr ''failed'') # Object_prototype)"


section \<open>Properties\<close>

lemma valid_status_iff:
  "valid_status v \<longleftrightarrow> typeof_js v = ''number'' \<and> js_ge v 400 \<and> js_lt v 600"
proof (cases v)
  case (JNum n)
  then show ?thesis by (cases n) simp_all
qed simp_all

lemma valid_status_defined: "valid_status v \<Longrightarrow> v \<noteq> JUndefined"
  by (cases v) simp_all

lemma getErrorStatusCode_eq:
  "\<not> nullish err \<Longrightarrow>
   getErrorStatusCode err =
     Inr (if valid_status (js_get err ''status'') then js_get err ''status''
          else if valid_status (js_get err ''statusCode'') then js_get err ''statusCode''
          else JUndefined)"
  by (simp add: getErrorStatusCode_def valid_status_iff)

text \<open>
  Claim C1. The primary field \<^verbatim>\<open>status\<close> is checked before the secondary field
  \<^verbatim>\<open>statusCode\<close>. When the primary field is numeric and in range it is the result,
  whatever else the error holds: two errors with the same valid primary field get the
  same status, so the secondary field has no influence, also when it is valid and
  different. The secondary field is the result only when the primary one is absent or
  invalid, and then only when it is itself valid.
\<close>

theorem getErrorStatusCode_primary_wins:
  "(\<not> nullish e1 \<and> \<not> nullish e2 \<and> valid_status (js_get e1 ''status'')
      \<and> js_get e2 ''status'' = js_get e1 ''status''
     \<longrightarrow> getErrorStatusCode e1 = Inr (js_get e1 ''status'')
         \<and> getErrorStatusCode e2 = getErrorStatusCode e1)
   \<and> (\<not> nullish e1 \<and> \<not> valid_status (js_get e1 ''status'')
        \<and> valid_status (js_get e1 ''statusCode'')
     \<longrightarrow> getErrorStatusCode e1 = Inr (js_get e1 ''statusCode''))
   \<and> (\<not> nullish e1 \<and> getErrorStatusCode e1 = Inr s \<and> s \<noteq> js_get e1 ''status''
     \<longrightarrow> \<not> valid_status (js_get e1 ''status''))"
  by (auto simp: getErrorStatusCode_eq)

theorem getErrorStatusCode_primary_wins_witness:
  "getErrorStatusCode
     (JObj [(''status'', JNum (Fin 400)), (''statusCode'', JNum (Fin 401))] Object_prototype)
     = Inr (JNum (Fin 400))
   \<and> getErrorStatusCode
       (JObj [(''statusCode'', JNum (Fin 503)), (''status'', JNum (Fin 400))] [])
     = Inr (JNum (Fin 400))
   \<and> getErrorStatusCode
       (JObj [(''status'', JNum (Fin 50)), (''statusCode'', JNum (Fin 410))] Object_prototype)
     = Inr (JNum (Fin 410))"
  using getErrorStatusCode_primary_wins
    [of "JObj [(''status'', JNum (Fin 400)), (''statusCode'', JNum (Fin 401))] Object_prototype"
        "JObj [(''statusCode'', JNum (Fin 503)), (''status'', JNum (Fin 400))] []"
        "JNum (Fin 410)"]
    getErrorStatusCode_primary_wins
    [of "JObj [(''status'', JNum (Fin 50)), (''statusCode'', JNum (Fin 410))] Object_prototype"
        "JNull" "JNum (Fin 410)"]
  by (simp add: Object_prototype_def lookup_def)


subsection \<open>Runs of the handler\<close>

lemma bind_exn_simps [simp]:
  "bind_exn (Inr x) f = f x"
  "bind_exn (Inl e) f = Inl e"
  by (simp_all add: bind_exn_def)

lemma bind_exn_eq_Inr:
  "bind_exn m f = Inr y \<longleftrightarrow> (\<exists>x. m = Inr x \<and> f x = Inr y)"
  by (cases m) simp_all

lemma all_actions_append: "all_actions (xs @ ys) = all_actions xs @ all_actions ys"
  by (simp add: all_actions_def)

lemma all_actions_Cons: "all_actions (a # xs) = flatten a @ all_actions xs"
  by (simp add: all_actions_def)

lemma all_actions_Nil: "all_actions [] = []"
  by (simp add: all_actions_def)

lemma all_actions_setHeaders: "all_actions (setHeaders h) = setHeaders h"
  by (simp add: setHeaders_def all_actions_def) (induction "Object_keys h"; simp add: comp_def)

lemma all_actions_write:
  "all_actions (write_response deps req st h m) = write_response deps req st h m"
  by (simp add: write_response_def Let_def all_actions_append all_actions_Cons all_actions_Nil
      all_actions_setHeaders)

lemma all_actions_sendResponse:
  "all_actions (sendResponse deps req st h m) =
     (if isFinished req then write_response deps req st h m
      else [Unpipe] @ write_response deps req st h m @ [Req_resume])"
  using all_actions_write [of deps req st h m]
  by (simp add: sendResponse_def all_actions_def)

lemma map_filter_append: "List.map_filter f (xs @ ys) = List.map_filter f xs @ List.map_filter f ys"
  by (simp add: List.map_filter_def)

lemma map_filter_Cons:
  "List.map_filter f (x # xs) = (case f x of None \<Rightarrow> List.map_filter f xs | Some y \<Rightarrow> y # List.map_filter f xs)"
  by (simp add: List.map_filter_def split: option.splits)

lemma map_filter_Nil: "List.map_filter f [] = []"
  by (simp add: List.map_filter_def)

lemmas mf = map_filter_append map_filter_Cons map_filter_Nil

lemma status_set_setHeaders: "List.map_filter status_set (setHeaders h) = []"
  by (simp add: setHeaders_def List.map_filter_def filter_empty_conv)


lemma ended_setHeaders: "List.map_filter ended (setHeaders h) = []"
  by (simp add: setHeaders_def List.map_filter_def filter_empty_conv)

lemma header_set_setHeaders:
  "List.map_filter header_set (setHeaders h) =
     (if truthy h then map (\<lambda>k. (k, js_get h k)) (Object_keys h) else [])"
  by (simp add: setHeaders_def List.map_filter_def comp_def)

lemma statuses_written_sendResponse:
  "List.map_filter status_set (all_actions (sendResponse deps req st h m)) = [st]"
  by (simp add: all_actions_sendResponse write_response_def Let_def mf status_set_setHeaders)


lemma ends_sendResponse:
  "List.map_filter ended (all_actions (sendResponse deps req st h m)) =
     [if req_method req = ''HEAD'' then None else Some (createHtmlDocument deps m)]"
  by (simp add: all_actions_sendResponse write_response_def Let_def mf ended_setHeaders)

lemma header_calls_sendResponse:
  "map fst (List.map_filter header_set (all_actions (sendResponse deps req st h m))) =
     (if truthy h then Object_keys h else [])
     @ [''Content-Security-Policy'', ''X-Content-Type-Options'', ''Content-Type'', ''Content-Length'']"
  by (simp add: all_actions_sendResponse write_response_def Let_def mf header_set_setHeaders comp_def)


lemma truthy_not_nullish: "truthy v \<Longrightarrow> \<not> nullish v"
  by (cases v) simp_all

lemma is_object_iff: "is_object v \<longleftrightarrow> truthy v \<and> typeof_js v = ''object''"
  by (cases v) simp_all

lemma getErrorHeaders_eq:
  "\<not> nullish err \<Longrightarrow>
   getErrorHeaders err =
     Inr (if is_object (js_get err ''headers'')
          then JObj (copy_headers (js_get err ''headers'') (Object_keys (js_get err ''headers'')) []) []
          else JUndefined)"
  by (auto simp: getErrorHeaders_def is_object_iff)

lemma derive_error:
  "truthy err \<Longrightarrow>
   derive deps env req res err =
     bind_exn (getErrorMessage deps err (error_status res err) env)
       (\<lambda>msg. Inr (error_status res err, error_headers err, msg))"
  by (auto simp: derive_def getErrorStatusCode_eq getErrorHeaders_eq truthy_not_nullish
      error_status_def error_headers_def dest: valid_status_defined)

lemma derive_no_error:
  "\<not> truthy err \<Longrightarrow>
   derive deps env req res err =
     Inr (JNum (Fin 404), JUndefined,
          JStr (''Cannot '' @ req_method req @ '' '' @ encodeUrl deps (getResourceName req)))"
  by (simp add: derive_def)

lemma finish_sent:
  "headersSent res \<Longrightarrow>
   finish deps env opts req res err =
     Inr [Debug [JStr ''cannot %d after headers sent'', JUndefined], Res_end (Some [])]"
  by (simp add: finish_def)

lemma finish_not_sent:
  assumes "\<not> headersSent res" and "finish deps env opts req res err = Inr acts"
  obtains status headers msg pre where
    "derive deps env req res err = Inr (status, headers, msg)"
    and "acts = pre @ sendResponse deps req status headers msg"
    and "all_actions pre = pre"
    and "filter touches_response pre = []"
    and "List.map_filter emitted pre =
           (if truthy (opt_app opts) \<and> typeof_js (js_get (opt_app opts) ''emit'') = ''function''
            then [(''errorDispatch'',
                   JObj [(''method'', JStr (req_method req)),
                         (''url'', JStr (encodeUrl deps (getResourceName req)))]
                     Object_prototype)]
            else [])"
proof -
  from assms obtain status headers msg where
    d: "derive deps env req res err = Inr (status, headers, msg)"
    by (auto simp: finish_def bind_exn_eq_Inr)
  let ?pre = "[Debug [JStr ''error dispatching %s %s'', JStr (req_method req),
                     JStr (encodeUrl deps (getResourceName req))]]
             @ (if truthy (opt_app opts) \<and> typeof_js (js_get (opt_app opts) ''emit'') = ''function''
                then [App_emit ''errorDispatch''
                        (JObj [(''method'', JStr (req_method req)),
                               (''url'', JStr (encodeUrl deps (getResourceName req)))]
                           Object_prototype)]
                else [])
             @ [Debug [JStr ''default %s'', status]]
             @ (if truthy err \<and> truthy (opt_onerror opts) then [Defer_onerror err] else [])"
  from assms d have a: "acts = ?pre @ sendResponse deps req status headers msg"
    by (simp add: finish_def)
  have p1: "all_actions ?pre = ?pre"
    by (simp add: all_actions_def)
  have p2: "filter touches_response ?pre = []"
    by simp
  have p3: "List.map_filter emitted ?pre =
           (if truthy (opt_app opts) \<and> typeof_js (js_get (opt_app opts) ''emit'') = ''function''
            then [(''errorDispatch'',
                   JObj [(''method'', JStr (req_method req)),
                         (''url'', JStr (encodeUrl deps (getResourceName req)))]
                     Object_prototype)]
            else [])"
    by (simp add: mf)
  from d a p1 p2 p3 show thesis by (rule that)
qed

lemma finish_returns:
  "\<not> headersSent res \<Longrightarrow>
   (\<exists>acts. finish deps env opts req res err = Inr acts)
     \<longleftrightarrow> (\<exists>r. derive deps env req res err = Inr r)"
  by (cases "derive deps env req res err") (auto simp: finish_def split: prod.splits)


lemma update_fresh: "k \<notin> fst ` set al \<Longrightarrow> AList.update k v al = al @ [(k, v)]"
  by (induction al) auto

lemma copy_headers_distinct:
  "distinct keys \<Longrightarrow> set keys \<inter> fst ` set acc = {} \<Longrightarrow>
   copy_headers src keys acc = acc @ map (\<lambda>k. (k, js_get src k)) keys"
proof (induction keys arbitrary: acc)
  case Nil
  then show ?case by simp
next
  case (Cons k keys)
  from Cons.prems have fresh: "k \<notin> fst ` set acc" by auto
  from Cons.prems have "set keys \<inter> fst ` set (acc @ [(k, js_get src k)]) = {}" by auto
  with Cons.IH [of "acc @ [(k, js_get src k)]"] Cons.prems fresh show ?case
    by (simp add: update_fresh)
qed

lemma map_of_graph: "k \<in> set keys \<Longrightarrow> map_of (map (\<lambda>k. (k, f k)) keys) k = Some (f k)"
  by (induction keys) auto

lemma header_set_copy:
  assumes "distinct (Object_keys h)"
  shows "List.map_filter header_set
           (setHeaders (JObj (copy_headers h (Object_keys h) []) [])) =
         map (\<lambda>k. (k, js_get h k)) (Object_keys h)"
proof -
  have c: "copy_headers h (Object_keys h) [] = map (\<lambda>k. (k, js_get h k)) (Object_keys h)"
    using copy_headers_distinct [OF assms, of "[]" h] by simp
  show ?thesis
    by (simp add: header_set_setHeaders c comp_def map_of_graph)
qed

lemma header_calls_write:
  obtains fixed where
    "List.map_filter header_set (all_actions (sendResponse deps req st h m)) =
       List.map_filter header_set (setHeaders h) @ fixed"
    and "map fst fixed = [''Content-Security-Policy'', ''X-Content-Type-Options'',
                          ''Content-Type'', ''Content-Length'']"
proof -
  let ?fixed = "[(''Content-Security-Policy'',
                  JStr (''default-src '' @ [CHR 0x27] @ ''none'' @ [CHR 0x27])),
                 (''X-Content-Type-Options'', JStr ''nosniff''),
                 (''Content-Type'', JStr ''text/html; charset=utf-8''),
                 (''Content-Length'',
                  JNum (Fin (of_nat (byteLength deps (createHtmlDocument deps m)))))]"
  have 1: "List.map_filter header_set (all_actions (sendResponse deps req st h m)) =
       List.map_filter header_set (setHeaders h) @ ?fixed"
    by (simp add: all_actions_sendResponse write_response_def Let_def mf)
  have 2: "map fst ?fixed = [''Content-Security-Policy'', ''X-Content-Type-Options'',
                          ''Content-Type'', ''Content-Length'']"
    by simp
  from 1 2 show thesis by (rule that)
qed

lemma header_set_pre:
  "filter touches_response pre = [] \<Longrightarrow> List.map_filter header_set pre = []"
proof (induction pre)
  case (Cons a pre)
  then show ?case by (cases a) (simp_all add: mf split: if_splits)
qed (simp add: mf)

lemma status_set_pre:
  "filter touches_response pre = [] \<Longrightarrow> List.map_filter status_set pre = []"
proof (induction pre)
  case (Cons a pre)
  then show ?case by (cases a) (simp_all add: mf split: if_splits)
qed (simp add: mf)

lemma ended_pre:
  "filter touches_response pre = [] \<Longrightarrow> List.map_filter ended pre = []"
proof (induction pre)
  case (Cons a pre)
  then show ?case by (cases a) (simp_all add: mf split: if_splits)
qed (simp add: mf)


lemma header_set_error_headers:
  assumes "distinct (Object_keys (js_get err ''headers''))"
  shows "List.map_filter header_set (setHeaders (error_headers err)) =
           (if (valid_status (js_get err ''status'') \<or> valid_status (js_get err ''statusCode''))
                 \<and> is_object (js_get err ''headers'')
            then map (\<lambda>k. (k, js_get (js_get err ''headers'') k))
                   (Object_keys (js_get err ''headers''))
            else [])"
proof (cases "(valid_status (js_get err ''status'') \<or> valid_status (js_get err ''statusCode''))
                 \<and> is_object (js_get err ''headers'')")
  case True
  then have "error_headers err =
      JObj (copy_headers (js_get err ''headers'') (Object_keys (js_get err ''headers'')) []) []"
    by (simp add: error_headers_def)
  with True header_set_copy [OF assms] show ?thesis by simp
next
  case False
  then have "error_headers err = JUndefined"
    by (simp add: error_headers_def)
  with False show ?thesis by (auto simp: setHeaders_def map_filter_Nil)
qed


text \<open>
  Claim C2. With an error and headers not yet sent, the headers the run sets on the
  response are the own entries of \<^verbatim>\<open>err.headers\<close>, in order, exactly when the
  status came from the error's own \<^verbatim>\<open>status\<close> or \<^verbatim>\<open>statusCode\<close> and
  \<^verbatim>\<open>err.headers\<close> is a genuine object, and none of the error's otherwise (the
  status fell back to the response's or to 500, or the attribute is not an object); the
  two security headers and the two content headers follow in every case.
\<close>

theorem error_headers_iff_status_from_error:
  assumes "truthy err" and "\<not> headersSent res"
    and "finish deps env opts req res err = Inr acts"
    and "distinct (Object_keys (js_get err ''headers''))"
  shows "\<exists>fixed.
           header_calls acts =
             (if (valid_status (js_get err ''status'') \<or> valid_status (js_get err ''statusCode''))
                 \<and> is_object (js_get err ''headers'')
              then map (\<lambda>k. (k, js_get (js_get err ''headers'') k))
                     (Object_keys (js_get err ''headers''))
              else [])
             @ fixed
           \<and> map fst fixed = [''Content-Security-Policy'', ''X-Content-Type-Options'',
                              ''Content-Type'', ''Content-Length'']"
proof -
  from assms(2,3) obtain status headers msg pre where
    d: "derive deps env req res err = Inr (status, headers, msg)"
    and a: "acts = pre @ sendResponse deps req status headers msg"
    and p: "all_actions pre = pre" "filter touches_response pre = []"
    by (rule finish_not_sent)
  from d have h: "headers = error_headers err"
    unfolding derive_error [OF assms(1)] bind_exn_eq_Inr by simp
  obtain fixed where
    f: "List.map_filter header_set (all_actions (sendResponse deps req status headers msg)) =
          List.map_filter header_set (setHeaders headers) @ fixed"
    and n: "map fst fixed = [''Content-Security-Policy'', ''X-Content-Type-Options'',
                            ''Content-Type'', ''Content-Length'']"
    by (rule header_calls_write [of deps req status headers msg])
  have "header_calls acts =
          List.map_filter header_set pre
          @ List.map_filter header_set (all_actions (sendResponse deps req status headers msg))"
    by (simp only: header_calls_def a all_actions_append p map_filter_append)
  also have "\<dots> = List.map_filter header_set (setHeaders (error_headers err)) @ fixed"
    using f by (simp only: h header_set_pre [OF p(2)] append_Nil)
  finally have "header_calls acts =
      List.map_filter header_set (setHeaders (error_headers err)) @ fixed" .
  then show ?thesis
    unfolding header_set_error_headers [OF assms(4)] using n by (intro exI conjI)
qed


lemma too_many_run:
  "finish example_deps (JStr ''development'') example_opts example_req example_res too_many
   = Inr (run_of (finish example_deps (JStr ''development'') example_opts example_req
                    example_res too_many))"
  by (simp add: finish_def derive_def headersSent_def example_res_def too_many_def
      getErrorStatusCode_def getErrorHeaders_def getErrorMessage_def js_or_def lookup_def
      Object_prototype_def run_of_def)

theorem error_headers_iff_status_from_error_witness:
  "map fst (header_calls
      (run_of (finish example_deps (JStr ''development'') example_opts example_req
                 example_res too_many)))
   = [''Retry-After'', ''Content-Security-Policy'', ''X-Content-Type-Options'',
      ''Content-Type'', ''Content-Length'']"
proof -
  have 1: "truthy too_many" by (simp add: too_many_def)
  have 2: "\<not> headersSent example_res" by (simp add: headersSent_def example_res_def)
  have 3: "distinct (Object_keys (js_get too_many ''headers''))"
    by (simp add: too_many_def)
  from error_headers_iff_status_from_error [OF 1 2 too_many_run 3]
  obtain fixed where
    f: "header_calls
      (run_of (finish example_deps (JStr ''development'') example_opts example_req
                 example_res too_many)) =
       (if (valid_status (js_get too_many ''status'') \<or> valid_status (js_get too_many ''statusCode''))
                 \<and> is_object (js_get too_many ''headers'')
              then map (\<lambda>k. (k, js_get (js_get too_many ''headers'') k))
                     (Object_keys (js_get too_many ''headers''))
              else []) @ fixed"
    and n: "map fst fixed = [''Content-Security-Policy'', ''X-Content-Type-Options'',
                              ''Content-Type'', ''Content-Length'']"
    by (elim exE conjE)
  show ?thesis
    unfolding f map_append n by (simp add: too_many_def)
qed

text \<open>
  Claim C5. When the response's headers have been sent (\<^verbatim>\<open>res.headersSent\<close> is
  \<^verbatim>\<open>true\<close>, or it is not a boolean and \<^verbatim>\<open>res._header\<close> is set), the run is
  the trace line and \<^verbatim>\<open>res.end('')\<close> and nothing else, whatever the error, the
  options and the request are: no status is derived, no header is set, no body is
  written, and nothing is thrown, also for an error whose \<^verbatim>\<open>toString\<close> throws.
\<close>

theorem finish_after_headers_sent:
  assumes "res_headersSent res = JBool True
           \<or> (typeof_js (res_headersSent res) \<noteq> ''boolean'' \<and> truthy (res_header res))"
  shows "finish deps env opts req res err =
           Inr [Debug [JStr ''cannot %d after headers sent'', JUndefined], Res_end (Some [])]"
proof -
  from assms have "headersSent res"
    by (auto simp: headersSent_def)
  then show ?thesis by (rule finish_sent)
qed

theorem finish_after_headers_sent_witness:
  "finish example_deps (JStr ''development'') example_opts example_req sent_res throwing_error =
     Inr [Debug [JStr ''cannot %d after headers sent'', JUndefined], Res_end (Some [])]
   \<and> finish example_deps (JStr ''development'') example_opts example_req
       (example_res \<lparr> res_headersSent := JUndefined, res_header := JStr ''HTTP/1.1 301'' \<rparr>)
       JUndefined =
     Inr [Debug [JStr ''cannot %d after headers sent'', JUndefined], Res_end (Some [])]"
proof -
  have 1: "res_headersSent sent_res = JBool True
           \<or> (typeof_js (res_headersSent sent_res) \<noteq> ''boolean'' \<and> truthy (res_header sent_res))"
    by (simp add: sent_res_def)
  have 2: "res_headersSent (example_res \<lparr> res_headersSent := JUndefined, res_header := JStr ''HTTP/1.1 301'' \<rparr>) = JBool True
           \<or> (typeof_js (res_headersSent (example_res \<lparr> res_headersSent := JUndefined, res_header := JStr ''HTTP/1.1 301'' \<rparr>)) \<noteq> ''boolean''
               \<and> truthy (res_header (example_res \<lparr> res_headersSent := JUndefined, res_header := JStr ''HTTP/1.1 301'' \<rparr>)))"
    by simp
  from finish_after_headers_sent [OF 1] finish_after_headers_sent [OF 2]
  show ?thesis by (intro conjI)
qed


lemma touches_write: "filter touches_response (write_response deps req st h m) \<noteq> []"
  by (simp add: write_response_def Let_def)

lemma ends_write:
  "ends (write_response deps req st h m) =
     [if req_method req = ''HEAD'' then None else Some (createHtmlDocument deps m)]"
  by (simp add: ends_def write_response_def Let_def mf ended_setHeaders)

text \<open>
  Claim C8. A run that reaches response emission consists of actions that do not touch
  the response, followed by the emission: when the request is finished, the write itself;
  otherwise \<^verbatim>\<open>unpipe(req)\<close>, the registration of the listener that performs the
  write, and \<^verbatim>\<open>req.resume()\<close>. So the run touches the response at once exactly
  when the request is finished, and the write, at once or in the listener, ends the
  response once. That the listener fires is the collaborators' part.
\<close>

theorem body_written_after_request_finished:
  assumes "\<not> headersSent res" and "finish deps env opts req res err = Inr acts"
  shows "\<exists>pre status headers msg.
           filter touches_response pre = []
           \<and> acts = pre @ (if isFinished req then write_response deps req status headers msg
                           else [Unpipe, OnFinished (write_response deps req status headers msg),
                                 Req_resume])
           \<and> ends (write_response deps req status headers msg) =
               [if req_method req = ''HEAD'' then None else Some (createHtmlDocument deps msg)]
           \<and> (filter touches_response acts = [] \<longleftrightarrow> \<not> isFinished req)"
proof -
  from assms obtain status headers msg pre where
    a: "acts = pre @ sendResponse deps req status headers msg"
    and p: "filter touches_response pre = []"
    by (rule finish_not_sent)
  have s: "sendResponse deps req status headers msg =
             (if isFinished req then write_response deps req status headers msg
              else [Unpipe, OnFinished (write_response deps req status headers msg), Req_resume])"
    by (simp add: sendResponse_def)
  have t: "filter touches_response acts = [] \<longleftrightarrow> \<not> isFinished req"
    using touches_write [of deps req status headers msg]
    by (simp add: a p sendResponse_def)
  from p a [unfolded s] ends_write t show ?thesis
    by (intro exI conjI)
qed

theorem body_written_after_request_finished_witness:
  "filter touches_response
     (run_of (finish example_deps (JStr ''development'') example_opts unread_req example_res
                too_many)) = []
   \<and> filter touches_response
     (run_of (finish example_deps (JStr ''development'') example_opts example_req example_res
                too_many)) \<noteq> []"
proof -
  have 1: "\<not> headersSent example_res" by (simp add: headersSent_def example_res_def)
  have r: "finish example_deps (JStr ''development'') example_opts unread_req example_res too_many
   = Inr (run_of (finish example_deps (JStr ''development'') example_opts unread_req
                    example_res too_many))"
    by (simp add: finish_def derive_def headersSent_def example_res_def too_many_def
      getErrorStatusCode_def getErrorHeaders_def getErrorMessage_def js_or_def lookup_def
      Object_prototype_def run_of_def)
  have u: "\<not> isFinished unread_req" by (simp add: unread_req_def)
  have f: "isFinished example_req" by (simp add: example_req_def)
  from body_written_after_request_finished [OF 1 r] u
  have a: "filter touches_response
     (run_of (finish example_deps (JStr ''development'') example_opts unread_req example_res
                too_many)) = []"
    by (elim exE conjE) simp
  from body_written_after_request_finished [OF 1 too_many_run] f
  have b: "filter touches_response
     (run_of (finish example_deps (JStr ''development'') example_opts example_req example_res
                too_many)) \<noteq> []"
    by (elim exE conjE) simp
  from a b show ?thesis by (intro conjI)
qed

subsection \<open>The document\<close>

lemma replace_all_Nil: "replace_all pat rep [] = []"
  by (subst replace_all.simps) simp

lemma replace_all_single:
  "replace_all [c] rep (x # xs) =
     (if x = c then rep @ replace_all [c] rep xs else x # replace_all [c] rep xs)"
  by (subst replace_all.simps) simp

lemma replace_all_pair_one: "replace_all [a, b] rep [x] = [x]"
  by (subst replace_all.simps) (simp add: replace_all_Nil)

lemma replace_all_pair:
  "replace_all [a, b] rep (x # y # xs) =
     (if x = a \<and> y = b then rep @ replace_all [a, b] rep xs
      else x # replace_all [a, b] rep (y # xs))"
  by (subst replace_all.simps) simp

lemma replace_newline: "replace_all NEWLINE_REGEXP ''<br>'' s = newline_to_br s"
  by (induction s)
    (simp_all add: NEWLINE_REGEXP_def newline_to_br_def replace_all_Nil replace_all_single)

lemma replace_double_space: "replace_all DOUBLE_SPACE_REGEXP '' &nbsp;'' s = pair_spaces s"
  by (induction s rule: pair_spaces.induct)
    (simp_all add: DOUBLE_SPACE_REGEXP_def replace_all_pair replace_all_pair_one replace_all_Nil)

text \<open>
  Claim C6. The two replacements of the source are the conversions the specification
  names, applied in its order to the escaped message: first every newline becomes
  \<^verbatim>\<open><br>\<close>, then, reading from the left, each two spaces in a row become a
  space and \<^verbatim>\<open>&nbsp;\<close> (so four spaces give two such pairs, and of three the last
  stays a space). The result stands between \<^verbatim>\<open><pre>\<close> and \<^verbatim>\<open></pre>\<close> on
  the eighth of the ten fixed lines of the document, whose title is Error.
\<close>

theorem createHtmlDocument_escapes:
  "createHtmlDocument deps message =
     unlines
       [''<!DOCTYPE html>'',
        ''<html lang='' @ [CHR 0x22] @ ''en'' @ [CHR 0x22] @ ''>'',
        ''<head>'',
        ''<meta charset='' @ [CHR 0x22] @ ''utf-8'' @ [CHR 0x22] @ ''>'',
        ''<title>Error</title>'',
        ''</head>'',
        ''<body>'',
        ''<pre>'' @ pair_spaces (newline_to_br (escapeHtml deps message)) @ ''</pre>'',
        ''</body>'',
        ''</html>'']"
  by (simp add: createHtmlDocument_def Let_def unlines_def replace_newline replace_double_space)

theorem createHtmlDocument_escapes_witness:
  "createHtmlDocument example_deps (JStr boom_stack) =
     unlines
       [''<!DOCTYPE html>'',
        ''<html lang='' @ [CHR 0x22] @ ''en'' @ [CHR 0x22] @ ''>'',
        ''<head>'',
        ''<meta charset='' @ [CHR 0x22] @ ''utf-8'' @ [CHR 0x22] @ ''>'',
        ''<title>Error</title>'',
        ''</head>'',
        ''<body>'',
        ''<pre>Error: boom!<br> &nbsp; &nbsp;at &lt;f&gt; &nbsp;x &nbsp; y</pre>'',
        ''</body>'',
        ''</html>'']"
proof -
  have "pair_spaces (newline_to_br (escapeHtml example_deps (JStr boom_stack)))
        = ''Error: boom!<br> &nbsp; &nbsp;at &lt;f&gt; &nbsp;x &nbsp; y''"
    by (simp add: example_deps_def boom_stack_def newline_to_br_def)
  with createHtmlDocument_escapes [of example_deps "JStr boom_stack"]
  show ?thesis by simp
qed

subsection \<open>The message\<close>

lemma js_or_simps [simp]:
  "truthy a \<Longrightarrow> js_or a b = a"
  "\<not> truthy a \<Longrightarrow> js_or a b = b"
  by (simp_all add: js_or_def)

lemma fallback_reason_phrase:
  assumes "\<And>c. statuses_message deps c \<noteq> Some []"
  shows "js_or (statuses_message_at deps status) (JStr (ToString deps status)) =
           JStr (reason_phrase deps status)"
proof (cases status)
  case (JNum n)
  show ?thesis
  proof (cases n)
    case (Fin r)
    show ?thesis
    proof (cases "statuses_message deps \<lfloor>r\<rfloor>")
      case None
      with JNum Fin show ?thesis
        by (simp add: statuses_message_at_def reason_phrase_def)
    next
      case (Some p)
      with assms [of "\<lfloor>r\<rfloor>"] have "p \<noteq> []" by auto
      with JNum Fin Some show ?thesis
        by (simp add: statuses_message_at_def reason_phrase_def)
    qed
  qed (simp_all add: JNum statuses_message_at_def reason_phrase_def)
qed (simp_all add: statuses_message_at_def reason_phrase_def)

lemma getErrorMessage_production:
  "getErrorMessage deps err status (JStr ''production'') =
     Inr (js_or (statuses_message_at deps status) (JStr (ToString deps status)))"
  by (simp add: getErrorMessage_def)

lemma getErrorMessage_no_detail:
  assumes "\<not> nullish err" and "\<not> truthy (js_get err ''stack'')"
    and "no_string_conversion deps err"
  shows "getErrorMessage deps err status env =
     Inr (js_or (statuses_message_at deps status) (JStr (ToString deps status)))"
proof (cases "typeof_js (js_get err ''toString'') = ''function''")
  case True
  with assms(3) obtain v where
    c: "js_call deps err (js_get err ''toString'') = Inr v" and v: "\<not> truthy v"
    by (auto simp: no_string_conversion_def split: sum.splits)
  from True assms(1,2) c v show ?thesis
    by (simp add: getErrorMessage_def)
next
  case False
  with assms(1,2) show ?thesis
    by (simp add: getErrorMessage_def)
qed

lemma finish_of_derive:
  assumes "\<not> headersSent res" and "derive deps env req res err = Inr (status, headers, msg)"
  obtains acts where "finish deps env opts req res err = Inr acts"
  using finish_returns [OF assms(1), of deps env opts req err] assms(2) by auto

lemma finish_run_facts:
  assumes "\<not> headersSent res" and "finish deps env opts req res err = Inr acts"
    and "derive deps env req res err = Inr (status, headers, msg)"
  shows "statuses_written acts = [status]"
    and "ends (all_actions acts) =
           [if req_method req = ''HEAD'' then None else Some (createHtmlDocument deps msg)]"
proof -
  from assms(1,2) obtain status' headers' msg' pre where
    d: "derive deps env req res err = Inr (status', headers', msg')"
    and a: "acts = pre @ sendResponse deps req status' headers' msg'"
    and p: "all_actions pre = pre" "filter touches_response pre = []"
    by (rule finish_not_sent)
  from d assms(3) have e: "status' = status" "headers' = headers" "msg' = msg"
    by simp_all
  show "statuses_written acts = [status]"
    by (simp only: statuses_written_def a all_actions_append p map_filter_append
        status_set_pre [OF p(2)] statuses_written_sendResponse e append_Nil)
  show "ends (all_actions acts) =
           [if req_method req = ''HEAD'' then None else Some (createHtmlDocument deps msg)]"
    by (simp only: ends_def a all_actions_append p map_filter_append
        ended_pre [OF p(2)] ends_sendResponse e append_Nil)
qed

lemma derive_error_msg:
  assumes "truthy err" and "getErrorMessage deps err (error_status res err) env = Inr msg"
  shows "derive deps env req res err = Inr (error_status res err, error_headers err, msg)"
  by (simp add: derive_error [OF assms(1)] assms(2))

text \<open>
  Claim C7. Let no empty phrase be registered. With an error and headers not yet sent: in
  production, or when the error has no stack and no usable string conversion, the run
  returns, writes the derived status, and its document carries the reason phrase of that
  status, or the stringified status when none is registered. In particular, in production
  an error with status 501 gives status 501 and the document of \<^verbatim>\<open>Not Implemented\<close>,
  whatever its stack, message and \<^verbatim>\<open>toString\<close> are.
\<close>

theorem production_message_is_reason_phrase:
  assumes "\<And>c. statuses_message deps c \<noteq> Some []"
    and "truthy err" and "\<not> headersSent res"
  shows "(env = JStr ''production''
            \<or> (\<not> truthy (js_get err ''stack'') \<and> no_string_conversion deps err)
          \<longrightarrow> (\<exists>acts. finish deps env opts req res err = Inr acts
                 \<and> statuses_written acts = [error_status res err]
                 \<and> ends (all_actions acts) =
                     [if req_method req = ''HEAD'' then None
                      else Some (createHtmlDocument deps
                                   (JStr (reason_phrase deps (error_status res err))))]))
         \<and> (env = JStr ''production'' \<and> js_get err ''status'' = JNum (Fin 501)
              \<and> statuses_message deps 501 = Some ''Not Implemented''
          \<longrightarrow> (\<exists>acts. finish deps env opts req res err = Inr acts
                 \<and> statuses_written acts = [JNum (Fin 501)]
                 \<and> ends (all_actions acts) =
                     [if req_method req = ''HEAD'' then None
                      else Some (createHtmlDocument deps (JStr ''Not Implemented''))]))"
proof (intro conjI impI)
  assume c: "env = JStr ''production''
            \<or> (\<not> truthy (js_get err ''stack'') \<and> no_string_conversion deps err)"
  have m: "getErrorMessage deps err (error_status res err) env =
             Inr (JStr (reason_phrase deps (error_status res err)))"
    using c getErrorMessage_production [of deps err "error_status res err"]
      getErrorMessage_no_detail [OF truthy_not_nullish [OF assms(2)], of deps "error_status res err" env]
    by (auto simp: fallback_reason_phrase [OF assms(1)])
  note d = derive_error_msg [OF assms(2) m, of req]
  from assms(3) d obtain acts where f: "finish deps env opts req res err = Inr acts"
    by (rule finish_of_derive)
  from f finish_run_facts [OF assms(3) f d]
  show "\<exists>acts. finish deps env opts req res err = Inr acts
                 \<and> statuses_written acts = [error_status res err]
                 \<and> ends (all_actions acts) =
                     [if req_method req = ''HEAD'' then None
                      else Some (createHtmlDocument deps
                                   (JStr (reason_phrase deps (error_status res err))))]"
    by (intro exI conjI)
next
  assume c: "env = JStr ''production'' \<and> js_get err ''status'' = JNum (Fin 501)
              \<and> statuses_message deps 501 = Some ''Not Implemented''"
  then have s: "error_status res err = JNum (Fin 501)"
    by (simp add: error_status_def)
  have r: "reason_phrase deps (JNum (Fin 501)) = ''Not Implemented''"
    using c by (simp add: reason_phrase_def)
  have m: "getErrorMessage deps err (error_status res err) env = Inr (JStr ''Not Implemented'')"
    using c getErrorMessage_production [of deps err "error_status res err"]
    by (simp add: fallback_reason_phrase [OF assms(1)] s r)
  note d = derive_error_msg [OF assms(2) m, of req]
  from assms(3) d obtain acts where f: "finish deps env opts req res err = Inr acts"
    by (rule finish_of_derive)
  from f finish_run_facts [OF assms(3) f d]
  show "\<exists>acts. finish deps env opts req res err = Inr acts
                 \<and> statuses_written acts = [JNum (Fin 501)]
                 \<and> ends (all_actions acts) =
                     [if req_method req = ''HEAD'' then None
                      else Some (createHtmlDocument deps (JStr ''Not Implemented''))]"
    unfolding s by (intro exI conjI)
qed


theorem production_message_is_reason_phrase_witness:
  "\<exists>acts. finalhandler example_deps JUndefined example_req example_res prod_opts boom_error = Inr acts
      \<and> statuses_written acts = [JNum (Fin 501)]
      \<and> ends (all_actions acts) =
          [Some (createHtmlDocument example_deps (JStr ''Not Implemented''))]"
proof -
  have 1: "\<And>c. statuses_message example_deps c \<noteq> Some []"
    by (simp add: example_deps_def example_statuses_def)
  have 2: "truthy boom_error" by (simp add: boom_error_def)
  have 3: "\<not> headersSent example_res" by (simp add: headersSent_def example_res_def)
  have 4: "JStr ''production'' = JStr ''production'' \<and> js_get boom_error ''status'' = JNum (Fin 501)
              \<and> statuses_message example_deps 501 = Some ''Not Implemented''"
    by (simp add: boom_error_def example_deps_def example_statuses_def)
  have 5: "get_env prod_opts JUndefined = JStr ''production''"
    by (simp add: get_env_def prod_opts_def)
  have 6: "req_method example_req \<noteq> ''HEAD''" by (simp add: example_req_def)
  from production_message_is_reason_phrase
         [OF 1 2 3, of "JStr ''production''" prod_opts example_req, THEN conjunct2, THEN mp, OF 4]
  have "\<exists>acts. finish example_deps (JStr ''production'') prod_opts example_req example_res boom_error = Inr acts
                 \<and> statuses_written acts = [JNum (Fin 501)]
                 \<and> ends (all_actions acts) =
                     [if req_method example_req = ''HEAD'' then None
                      else Some (createHtmlDocument example_deps (JStr ''Not Implemented''))]" .
  then show ?thesis
    by (simp only: finalhandler_def 5 6 if_False)
qed

subsection \<open>Exceptions\<close>












subsection \<open>The dispatch event\<close>







subsection \<open>The status written\<close>

lemma getResponseStatusCode_spec:
  "res_statusCode res \<noteq> JNum NaN \<Longrightarrow>
   getResponseStatusCode res =
     (if in_closed_range (res_statusCode res) then res_statusCode res else JNum (Fin 500))"
proof (cases "res_statusCode res")
  case (JNum n)
  assume "res_statusCode res \<noteq> JNum NaN"
  with JNum show ?thesis
    by (cases n) (auto simp: getResponseStatusCode_def Let_def)
qed (simp_all add: getResponseStatusCode_def Let_def)

lemma in_closed_range_Fin:
  "in_closed_range v \<Longrightarrow> \<exists>r. v = JNum (Fin r) \<and> 400 \<le> r \<and> r \<le> 599"
  by (cases v rule: in_closed_range.cases) simp_all

lemma valid_status_Fin:
  "valid_status v \<Longrightarrow> \<exists>r. v = JNum (Fin r) \<and> 400 \<le> r \<and> r < 600"
  by (cases v rule: valid_status.cases) simp_all

lemma finish_error_status:
  assumes "\<not> headersSent res" and "truthy err"
    and "finish deps env opts req res err = Inr acts"
  shows "statuses_written acts = [error_status res err]"
proof -
  from assms(1,3) obtain status headers msg where
    d: "derive deps env req res err = Inr (status, headers, msg)"
    by (rule finish_not_sent)
  from d have "status = error_status res err"
    unfolding derive_error [OF assms(2)] bind_exn_eq_Inr by simp
  with finish_run_facts(1) [OF assms(1,3) d] show ?thesis by simp
qed

lemma finish_no_error_status:
  assumes "\<not> headersSent res" and "\<not> truthy err"
    and "finish deps env opts req res err = Inr acts"
  shows "statuses_written acts = [JNum (Fin 404)]"
  using finish_run_facts(1) [OF assms(1,3) derive_no_error [OF assms(2)]] .

text \<open>
  Claim C3, where the code departs from it. When the error has no valid status-like
  attribute, the status is \<open>getResponseStatusCode res\<close>: by
  \<open>getResponseStatusCode_spec\<close> the response's status code when that is a number from
  400 to 599 and 500 otherwise, unless the code is not-a-number. Not-a-number passes
  all three tests of the source (its type is number, and both comparisons are false), so
  it is returned and written as the status, where the claim and the source's comment
  ask for 500.
\<close>

theorem fallback_status_NaN:
  assumes "res_statusCode res = JNum NaN"
    and "\<not> headersSent res" and "truthy err"
    and "\<not> valid_status (js_get err ''status'')"
    and "\<not> valid_status (js_get err ''statusCode'')"
    and "finish deps env opts req res err = Inr acts"
  shows "getResponseStatusCode res = JNum NaN \<and> statuses_written acts = [JNum NaN]"
proof -
  from assms(1) have g: "getResponseStatusCode res = JNum NaN"
    by (simp add: getResponseStatusCode_def Let_def)
  with assms(4,5) have "error_status res err = JNum NaN"
    by (simp add: error_status_def)
  with finish_error_status [OF assms(2,3,6)] g show ?thesis by simp
qed

lemma plain_nan_run:
  "finish example_deps (JStr ''development'') example_opts example_req nan_res plain_error
   = Inr (run_of (finish example_deps (JStr ''development'') example_opts example_req
                    nan_res plain_error))"
  by (simp add: finish_def derive_def headersSent_def nan_res_def plain_error_def
      getErrorStatusCode_def getErrorMessage_def getResponseStatusCode_def js_or_def lookup_def
      Object_prototype_def run_of_def)

theorem fallback_status_NaN_witness:
  "statuses_written
     (run_of (finish example_deps (JStr ''development'') example_opts example_req
                nan_res plain_error)) = [JNum NaN]
   \<and> \<not> in_closed_range (JNum NaN) \<and> JNum NaN \<noteq> JNum (Fin 500)"
proof -
  have 1: "res_statusCode nan_res = JNum NaN" by (simp add: nan_res_def)
  have 2: "\<not> headersSent nan_res" by (simp add: headersSent_def nan_res_def)
  have 3: "truthy plain_error" by (simp add: plain_error_def)
  have 4: "\<not> valid_status (js_get plain_error ''status'')"
    by (simp add: plain_error_def lookup_def Object_prototype_def)
  have 5: "\<not> valid_status (js_get plain_error ''statusCode'')"
    by (simp add: plain_error_def lookup_def Object_prototype_def)
  from fallback_status_NaN [OF 1 2 3 4 5 plain_nan_run] show ?thesis by simp
qed

text \<open>
  Claim C4, as the code has it. A run that returns with headers not yet sent writes one
  status. Unless it falls back to a response status code that is not-a-number, the status
  is a finite number from 400 up to, but not including, 600: 404 without an error,
  otherwise the status the derivation rules give. It is at most 599 when it is an integer
  and when it comes from the response. The closed interval of the claim fails on an
  error status such as 599.5, which the acceptance rule (numeric and below 600) admits.
\<close>

theorem status_written_in_range:
  assumes "\<not> headersSent res" and "finish deps env opts req res err = Inr acts"
    and "valid_status (js_get err ''status'') \<or> valid_status (js_get err ''statusCode'')
         \<or> \<not> truthy err \<or> res_statusCode res \<noteq> JNum NaN"
  shows "\<exists>r. statuses_written acts = [JNum (Fin r)] \<and> 400 \<le> r \<and> r < 600
             \<and> (of_int \<lfloor>r\<rfloor> = r \<longrightarrow> r \<le> 599)
             \<and> (\<not> truthy err \<longrightarrow> r = 404)
             \<and> (truthy err \<longrightarrow> JNum (Fin r) = error_status res err)
             \<and> (truthy err \<and> \<not> valid_status (js_get err ''status'')
                  \<and> \<not> valid_status (js_get err ''statusCode'') \<longrightarrow> r \<le> 599)"
proof -
  have int_bound: "r \<le> 599" if "of_int \<lfloor>r\<rfloor> = r" and "r < 600" for r :: rat
  proof -
    from that(2) have "\<lfloor>r\<rfloor> < 600" by (simp add: floor_less_iff)
    then have "\<lfloor>r\<rfloor> \<le> 599" by simp
    then have "(of_int \<lfloor>r\<rfloor> :: rat) \<le> 599" by (simp only: of_int_le_numeral_iff)
    then show ?thesis unfolding that(1) .
  qed
  show ?thesis
  proof (cases "truthy err")
    case False
    from finish_no_error_status [OF assms(1) False assms(2)] False show ?thesis
      by (intro exI [where x = 404]) simp
  next
    case True
    note s = finish_error_status [OF assms(1) True assms(2)]
    show ?thesis
    proof (cases "valid_status (js_get err ''status'') \<or> valid_status (js_get err ''statusCode'')")
      case v: True
      then have "valid_status (error_status res err)"
        by (auto simp: error_status_def)
      from valid_status_Fin [OF this] obtain r where
        r: "error_status res err = JNum (Fin r)" "400 \<le> r" "r < 600" by (elim exE conjE)
      from s r True v int_bound [of r] show ?thesis
        by (intro exI [where x = r]) auto
    next
      case v: False
      with assms(3) True have n: "res_statusCode res \<noteq> JNum NaN" by simp
      from v have e: "error_status res err = getResponseStatusCode res"
        by (simp add: error_status_def)
      have "in_closed_range (getResponseStatusCode res)"
        unfolding getResponseStatusCode_spec [OF n] by simp
      from in_closed_range_Fin [OF this] obtain r where
        r: "getResponseStatusCode res = JNum (Fin r)" "400 \<le> r" "r \<le> 599" by (elim exE conjE)
      from s r e True show ?thesis
        by (intro exI [where x = r]) auto
    qed
  qed
qed

lemma half_run:
  "finish example_deps (JStr ''development'') example_opts example_req example_res half_error
   = Inr (run_of (finish example_deps (JStr ''development'') example_opts example_req
                    example_res half_error))"
  by (simp add: finish_def derive_def headersSent_def example_res_def half_error_def
      getErrorStatusCode_def getErrorHeaders_def getErrorMessage_def js_or_def lookup_def
      Object_prototype_def run_of_def)

theorem status_written_in_range_witness:
  "\<exists>r. statuses_written
          (run_of (finish example_deps (JStr ''development'') example_opts example_req
                     example_res half_error)) = [JNum (Fin r)]
       \<and> 400 \<le> r \<and> r < 600"
proof -
  have 1: "\<not> headersSent example_res" by (simp add: headersSent_def example_res_def)
  have 3: "valid_status (js_get half_error ''status'') \<or> valid_status (js_get half_error ''statusCode'')
         \<or> \<not> truthy half_error \<or> res_statusCode example_res \<noteq> JNum NaN"
    by (simp add: half_error_def)
  from status_written_in_range [OF 1 half_run 3] obtain r where
    "statuses_written
          (run_of (finish example_deps (JStr ''development'') example_opts example_req
                     example_res half_error)) = [JNum (Fin r)]" "400 \<le> r" "r < 600"
    by (elim exE conjE)
  then show ?thesis by (intro exI conjI)
qed

theorem status_above_599_counterexample:
  "statuses_written
     (run_of (finish example_deps (JStr ''development'') example_opts example_req
                example_res half_error)) = [JNum (Fin (1199 / 2))]
   \<and> \<not> in_closed_range (JNum (Fin (1199 / 2)))"
proof -
  have 1: "\<not> headersSent example_res" by (simp add: headersSent_def example_res_def)
  have 2: "truthy half_error" by (simp add: half_error_def)
  have "error_status example_res half_error = JNum (Fin (1199 / 2))"
    by (simp add: error_status_def half_error_def)
  with finish_error_status [OF 1 2 half_run] show ?thesis by simp
qed

end
